theory Spec2Isabelle
  imports Main "HOL-Library.Sublist"
begin

section \<open>The application object of \<^verbatim>\<open>app.py\<close>\<close>

text \<open>
  \<^verbatim>\<open>SRTTranslatorApp\<close> reads its inputs from widgets, writes the process-wide
  \<^verbatim>\<open>config\<close> object and calls its collaborators (the processor, the message boxes,
  the progress window, the logger). The model keeps the widget contents and the
  configuration in one state record, and returns the calls made to collaborators as a
  list of effects, oldest first.
\<close>

record config =
  deepl_key :: string
  openai_key :: string
  whisper_model :: string
  cuda_available :: bool

text \<open>
  The processor classes live in \<^verbatim>\<open>video_processor.py\<close>, which is not part of the
  sources at hand. What the application needs of them is the credential snapshot.
\<close>

record processor =
  api_deepl_key :: string
  api_openai_key :: string
  api_model :: string

definition update_api_client :: "config \<Rightarrow> processor \<Rightarrow> processor" where
  \<comment> \<open>Modelled from the spec: \<^verbatim>\<open>update_api_client\<close> of \<^verbatim>\<open>video_processor.py\<close> is
      missing; the spec says it re-snapshots translation credentials and model
      configuration from the current process-wide config.\<close>
  "update_api_client c p =
     p\<lparr>api_deepl_key := deepl_key c, api_openai_key := openai_key c,
       api_model := whisper_model c\<rparr>"

datatype exn = AttributeError | CollaboratorError

datatype warning =
    NoSourceWarning    \<comment> \<open>"Veuillez entrer une URL ou selectionner un fichier video."\<close>
  | NoLanguageWarning  \<comment> \<open>"Veuillez selectionner une langue cible."\<close>

datatype log_msg =
    ModelSelected string
  | LocalFile string
  | FromUrl string
  | FileSelected string
  | DoneFailed exn
  | CancelFailed exn
  | ErrorFailed exn
  | ListenerFailed exn

datatype effect =
    SaveApiKeys string string
  | SaveConfig string
  | LogInfo log_msg
  | LogError log_msg
  | UpdateApiClient
  | ShowWarning warning
  | CreateProgressWindow
  | ProcessVideo "string option" "string option" string string bool
  | ProgressClose
  | ResultDialogShow "string option"
  | ShowInfoDone "string option"
  | ShowInfoCancelled
  | ShowErrorBox "string option"

type_synonym cmd = "string \<rightharpoonup> string"

record app =
  url_entry :: string
  deepl_key_entry :: string
  openai_key_entry :: string
  whisper_model_combobox :: string
  language_combobox :: string
  service_combobox :: string
  gpu_var :: bool
  conf :: config
  proc :: processor
  progress_window :: "bool option"
  command_queue :: "cmd list"
  scheduled :: "nat option"

text \<open>
  \<^verbatim>\<open>progress_window\<close> is \<open>None\<close> while the attribute has not been assigned,
  \<open>Some True\<close> for an open window and \<open>Some False\<close> for a closed one.
  \<^verbatim>\<open>scheduled\<close> is the delay, in milliseconds, of the pending \<^verbatim>\<open>root.after\<close>
  callback of the command listener.
\<close>

subsection \<open>Python helpers\<close>

definition truthy :: "string option \<Rightarrow> bool" where
  \<comment> \<open>Truth value of an optional string: \<^verbatim>\<open>None\<close> and \<^verbatim>\<open>""\<close> are false.\<close>
  "truthy v = (case v of None \<Rightarrow> False | Some s \<Rightarrow> s \<noteq> [])"

fun split_first :: "string \<Rightarrow> string \<Rightarrow> string" where
  \<comment> \<open>\<^verbatim>\<open>s.split(sep)[0]\<close> for a non-empty separator.\<close>
  "split_first sep [] = []"
| "split_first sep (c # cs) = (if prefix sep (c # cs) then [] else c # split_first sep cs)"

definition basename :: "string \<Rightarrow> string" where
  \<comment> \<open>\<^verbatim>\<open>os.path.basename\<close> with the separator \<^verbatim>\<open>/\<close>.\<close>
  "basename p = rev (takeWhile (\<lambda>c. c \<noteq> CHR ''/'') (rev p))"

subsection \<open>Starting a job: \<^verbatim>\<open>_process_video\<close> and \<^verbatim>\<open>_select_local_file\<close>\<close>

definition app_process_video :: "string option \<Rightarrow> app \<Rightarrow> effect list \<times> app" where
  "app_process_video video_path a =
    (let url = url_entry a;
         deepl = deepl_key_entry a;
         openai = openai_key_entry a;
         c1 = (conf a)\<lparr>deepl_key := deepl, openai_key := openai\<rparr>;
         e1 = [SaveApiKeys (deepl_key c1) (openai_key c1)];
         model = whisper_model_combobox a;
         c2 = (if model \<noteq> [] then c1\<lparr>whisper_model := model\<rparr> else c1);
         e2 = (if model \<noteq> [] then [SaveConfig (whisper_model c2), LogInfo (ModelSelected model)]
               else []);
         p1 = update_api_client c2 (proc a);
         e3 = [UpdateApiClient];
         use_gpu = (gpu_var a \<and> cuda_available c2);
         a1 = a\<lparr>conf := c2, proc := p1\<rparr>
     in if url = [] \<and> \<not> truthy video_path
        then (e1 @ e2 @ e3 @ [ShowWarning NoSourceWarning], a1)
        else
          let target_language = split_first '' - '' (language_combobox a);
              translation_service = service_combobox a
          in if target_language = []
             then (e1 @ e2 @ e3 @ [ShowWarning NoLanguageWarning], a1)
             else
               let a2 = a1\<lparr>progress_window := Some True\<rparr>;
                   e4 = [CreateProgressWindow]
               in if truthy video_path
                  then (e1 @ e2 @ e3 @ e4 @
                         [LogInfo (LocalFile (basename (the video_path))),
                          ProcessVideo None video_path target_language
                            translation_service use_gpu], a2)
                  else (e1 @ e2 @ e3 @ e4 @
                         [LogInfo (FromUrl url),
                          ProcessVideo (Some url) None target_language
                            translation_service use_gpu], a2))"

definition select_local_file :: "string \<Rightarrow> app \<Rightarrow> effect list \<times> app" where
  \<comment> \<open>The first argument is what the file dialog returned (\<^verbatim>\<open>""\<close> when dismissed).\<close>
  "select_local_file file_path a =
     (if file_path \<noteq> []
      then
        let a1 = a\<lparr>url_entry := ''Fichier local: '' @ basename file_path\<rparr>;
            (es, a2) = app_process_video (Some file_path) a1
        in (LogInfo (FileSelected file_path) # es, a2)
      else ([], a))"

definition is_process_video :: "effect \<Rightarrow> bool" where
  "is_process_video e = (case e of ProcessVideo u p l s g \<Rightarrow> True | _ \<Rightarrow> False)"

definition is_warning :: "effect \<Rightarrow> bool" where
  "is_warning e = (case e of ShowWarning w \<Rightarrow> True | _ \<Rightarrow> False)"

definition supported_languages :: "string list" where
  \<comment> \<open>The codes of the values offered by \<^verbatim>\<open>language_combobox\<close>.\<close>
  "supported_languages =
     [''FR'', ''EN'', ''ES'', ''DE'', ''IT'', ''ZH'', ''JA'', ''RU'', ''NL'', ''PT'', ''AR'',
      ''HI'', ''KO'', ''TR'']"

subsection \<open>Receiving terminal commands\<close>

text \<open>
  \<^verbatim>\<open>ProgressWindow\<close>, \<^verbatim>\<open>ResultDialog\<close> and the message boxes are collaborators whose
  code is not at hand; every handler wraps its calls to them in
  \<^verbatim>\<open>try ... except Exception\<close>. Whether such a call raises is a parameter.
\<close>

record ui =
  close_raises :: bool
  dialog_raises :: bool
  messagebox_raises :: bool

definition close_progress :: "ui \<Rightarrow> app \<Rightarrow> exn option \<times> effect list \<times> app" where
  \<comment> \<open>\<^verbatim>\<open>self.progress_window.close()\<close>: reading an attribute never assigned raises
      \<^verbatim>\<open>AttributeError\<close> before any call is made.\<close>
  "close_progress u a =
     (case progress_window a of
        None \<Rightarrow> (Some AttributeError, [], a)
      | Some w \<Rightarrow>
          if close_raises u then (Some CollaboratorError, [ProgressClose], a)
          else (None, [ProgressClose], a\<lparr>progress_window := Some False\<rparr>))"

definition handle_processing_done ::
  "ui \<Rightarrow> string option \<Rightarrow> app \<Rightarrow> exn option \<times> effect list \<times> app" where
  "handle_processing_done u video_folder a =
     (let fallback = (\<lambda>e es a1.
            (if messagebox_raises u then Some CollaboratorError else None,
             es @ [LogError (DoneFailed e), ShowInfoDone video_folder], a1))
      in case close_progress u a of
           (Some e, es, a1) \<Rightarrow> fallback e es a1
         | (None, es, a1) \<Rightarrow>
             if dialog_raises u
             then fallback CollaboratorError (es @ [ResultDialogShow video_folder]) a1
             else (None, es @ [ResultDialogShow video_folder], a1))"

definition handle_processing_cancelled :: "ui \<Rightarrow> app \<Rightarrow> exn option \<times> effect list \<times> app" where
  "handle_processing_cancelled u a =
     (case close_progress u a of
        (Some e, es, a1) \<Rightarrow> (None, es @ [LogError (CancelFailed e)], a1)
      | (None, es, a1) \<Rightarrow>
          if messagebox_raises u
          then (None, es @ [ShowInfoCancelled, LogError (CancelFailed CollaboratorError)], a1)
          else (None, es @ [ShowInfoCancelled], a1))"

definition handle_processing_error ::
  "ui \<Rightarrow> string option \<Rightarrow> app \<Rightarrow> exn option \<times> effect list \<times> app" where
  "handle_processing_error u error_message a =
     (case close_progress u a of
        (Some e, es, a1) \<Rightarrow> (None, es @ [LogError (ErrorFailed e)], a1)
      | (None, es, a1) \<Rightarrow>
          if messagebox_raises u
          then (None, es @ [ShowErrorBox error_message,
                            LogError (ErrorFailed CollaboratorError)], a1)
          else (None, es @ [ShowErrorBox error_message], a1))"

datatype handler =
    HandleDone "string option"
  | HandleCancelled
  | HandleError "string option"

definition dispatch :: "cmd \<Rightarrow> handler option" where
  \<comment> \<open>The \<^verbatim>\<open>if/elif/elif\<close> chain of \<^verbatim>\<open>_handle_command\<close>; \<^verbatim>\<open>cmd.get\<close> gives
      \<^verbatim>\<open>None\<close> for a missing key.\<close>
  "dispatch cmd =
     (let command = cmd ''command''
      in if command = Some ''processing_done'' then Some (HandleDone (cmd ''video_folder''))
         else if command = Some ''processing_cancelled'' then Some HandleCancelled
         else if command = Some ''error'' then Some (HandleError (cmd ''message''))
         else None)"

definition handle_command :: "ui \<Rightarrow> cmd \<Rightarrow> app \<Rightarrow> exn option \<times> effect list \<times> app" where
  "handle_command u cmd a =
     (case dispatch cmd of
        Some (HandleDone video_folder) \<Rightarrow> handle_processing_done u video_folder a
      | Some HandleCancelled \<Rightarrow> handle_processing_cancelled u a
      | Some (HandleError error_message) \<Rightarrow> handle_processing_error u error_message a
      | None \<Rightarrow> (None, [], a))"

definition setup_command_listener :: "app \<Rightarrow> app" where
  "setup_command_listener a = a\<lparr>scheduled := Some 100\<rparr>"

definition check_commands :: "ui \<Rightarrow> app \<Rightarrow> effect list \<times> app" where
  \<comment> \<open>One run of the timer callback: \<^verbatim>\<open>get_nowait\<close> either takes the oldest command or
      raises \<^verbatim>\<open>queue.Empty\<close>, which is passed over.\<close>
  "check_commands u a =
     (case command_queue a of
        [] \<Rightarrow> ([], a\<lparr>scheduled := Some 100\<rparr>)
      | cmd # rest \<Rightarrow>
          (case handle_command u cmd (a\<lparr>command_queue := rest\<rparr>) of
             (None, es, a1) \<Rightarrow> (es, a1\<lparr>scheduled := Some 100\<rparr>)
           | (Some e, es, a1) \<Rightarrow>
               (es @ [LogError (ListenerFailed e)], a1\<lparr>scheduled := Some 1000\<rparr>)))"

fun polls :: "ui list \<Rightarrow> app \<Rightarrow> effect list \<times> app" where
  \<comment> \<open>Successive runs of the callback, one collaborator behaviour per run.\<close>
  "polls [] a = ([], a)"
| "polls (u # us) a =
     (let (es, a1) = check_commands u a;
          (es', a2) = polls us a1
      in (es @ es', a2))"

definition shows_done :: "effect \<Rightarrow> bool" where
  "shows_done e = (case e of ResultDialogShow f \<Rightarrow> True | ShowInfoDone f \<Rightarrow> True | _ \<Rightarrow> False)"

definition shows_cancelled :: "effect \<Rightarrow> bool" where
  "shows_cancelled e = (e = ShowInfoCancelled)"

definition shows_error :: "effect \<Rightarrow> bool" where
  "shows_error e = (case e of ShowErrorBox m \<Rightarrow> True | _ \<Rightarrow> False)"

section \<open>The job pipeline\<close>

text \<open>
  The pipeline itself (\<^verbatim>\<open>VideoProcessor\<close>, \<^verbatim>\<open>ThreadedVideoProcessor\<close> and the
  translation backends of \<^verbatim>\<open>video_processor.py\<close>) is not part of the sources at hand:
  \<^verbatim>\<open>app.py\<close> only imports and calls it. This section models it from the
  specification. Download, audio extraction, transcription, the two translation
  services and the assembly are capabilities with a defined input and output, so they
  are parameters here; each may fail with a message.
\<close>

record subtitle_entry =
  entry_index :: nat
  entry_start :: nat
  entry_end :: nat
  entry_text :: string

type_synonym subtitle_document = "subtitle_entry list"

datatype backend = NeuralMT | ChatCompletion

datatype source = Url string | LocalPath string

record pipeline_job =
  source :: source
  target_language :: string
  backend :: backend
  use_gpu :: bool

datatype terminal_command = Done string | Cancelled | Error string

datatype stage = Downloading | ExtractingAudio | Transcribing | Translating | Assembling

datatype error_kind =
    DownloadError | AudioExtractionError | TranscriptionError | TranslationError | AssemblyError

datatype event =
    Enter stage
  | CheckToken
  | Failed error_kind
  | Cleanup
  | Publish terminal_command

datatype reply = Texts "string list" | Transient string | Fatal string

record collaborators =
  download :: "string \<Rightarrow> string + string"
  extract_audio :: "string \<Rightarrow> string + string"
  transcribe :: "string \<Rightarrow> bool \<Rightarrow> string + subtitle_document"
  neural_mt :: "nat \<Rightarrow> string list \<Rightarrow> string \<Rightarrow> reply"
  chat_completion :: "string list \<Rightarrow> string \<Rightarrow> reply"
  assemble :: "string \<Rightarrow> subtitle_document \<Rightarrow> subtitle_document \<Rightarrow> string + string"
  device_available :: bool
  batch_size :: nat
  max_attempts :: nat

subsection \<open>The cancellation token\<close>

text \<open>
  The token is set once by the consumer and only read by the runner. The runner's checks
  are numbered from 0 in the order it performs them; a token \<open>Some c\<close> is set after
  check \<open>c - 1\<close> and before check \<open>c\<close>, so check \<open>k\<close> sees it set exactly when
  \<open>c \<le> k\<close>. \<open>None\<close> is a token that is never set. The number of checks performed
  so far is the number of \<open>CheckToken\<close> events of the trace.
\<close>

definition check_token :: "nat option \<Rightarrow> event list \<Rightarrow> bool \<times> event list" where
  \<comment> \<open>Modelled from the spec: the runner's poll of the CancellationToken, which is in the
      missing \<^verbatim>\<open>video_processor.py\<close>; a single flag, write-once-set, read-many.\<close>
  "check_token tok tr =
     ((case tok of None \<Rightarrow> False | Some c \<Rightarrow> c \<le> count_list tr CheckToken),
      tr @ [CheckToken])"

definition guarded ::
  "nat option \<Rightarrow> stage \<Rightarrow> (event list \<Rightarrow> terminal_command \<times> event list) \<Rightarrow>
     event list \<Rightarrow> terminal_command \<times> event list" where
  \<comment> \<open>Modelled from the spec: a stage boundary of the missing JobRunner; the token is
      checked, and the stage is entered only if it is not set.\<close>
  "guarded tok s body tr =
     (case check_token tok tr of
        (True, tr1) \<Rightarrow> (Cancelled, tr1)
      | (False, tr1) \<Rightarrow> body (tr1 @ [Enter s]))"

subsection \<open>Translation\<close>

function chunks :: "nat \<Rightarrow> 'a list \<Rightarrow> 'a list list" where
  \<comment> \<open>Modelled from the spec: the bounded batches of the missing Translating stage;
      a bound below 1 is read as 1.\<close>
  "chunks n xs =
     (if xs = [] then [] else take (max 1 n) xs # chunks n (drop (max 1 n) xs))"
  by pat_completeness auto
termination
  by (relation "measure (\<lambda>(n, xs). length xs)") auto

declare chunks.simps [simp del]

fun neural_attempts :: "(nat \<Rightarrow> reply) \<Rightarrow> nat \<Rightarrow> nat \<Rightarrow> string + string list" where
  \<comment> \<open>Modelled from the spec: the NeuralMT backend of the missing
      \<^verbatim>\<open>video_processor.py\<close>, bounded retry on transient failures; the second argument
      is the number of the attempt, the third the attempts left.\<close>
  "neural_attempts svc k 0 = Inl ''retries exhausted''"
| "neural_attempts svc k (Suc n) =
     (case svc k of
        Texts ts \<Rightarrow> Inr ts
      | Fatal m \<Rightarrow> Inl m
      | Transient m \<Rightarrow> neural_attempts svc (Suc k) n)"

definition translate :: "collaborators \<Rightarrow> backend \<Rightarrow> string list \<Rightarrow> string \<Rightarrow> string + string list" where
  \<comment> \<open>Modelled from the spec: the common contract of the missing TranslationBackend
      variants, on one batch. A reply whose entry count differs from the batch is a
      backend error (a malformed backend response), not truncated or padded.\<close>
  "translate c b entries language =
     (let r = (case b of
                 NeuralMT \<Rightarrow>
                   neural_attempts (\<lambda>k. neural_mt c k entries language) 0 (max_attempts c)
               | ChatCompletion \<Rightarrow>
                   (case chat_completion c entries language of
                      Texts ts \<Rightarrow> Inr ts
                    | Fatal m \<Rightarrow> Inl m
                    | Transient m \<Rightarrow> Inl m))
      in case r of
           Inl m \<Rightarrow> Inl m
         | Inr ts \<Rightarrow> if length ts = length entries then Inr ts
                     else Inl ''mismatched entry count'')"

fun translate_batches ::
  "collaborators \<Rightarrow> pipeline_job \<Rightarrow> nat option \<Rightarrow> string list list \<Rightarrow> event list \<Rightarrow>
     (terminal_command + string list) \<times> event list" where
  \<comment> \<open>Modelled from the spec: the translation batch loop of the missing JobRunner, with
      the token checked before every batch.\<close>
  "translate_batches c j tok [] tr = (Inr [], tr)"
| "translate_batches c j tok (b # bs) tr =
     (case check_token tok tr of
        (True, tr1) \<Rightarrow> (Inl Cancelled, tr1)
      | (False, tr1) \<Rightarrow>
          (case translate c (backend j) b (target_language j) of
             Inl m \<Rightarrow> (Inl (Error m), tr1 @ [Failed TranslationError])
           | Inr ts \<Rightarrow>
               (case translate_batches c j tok bs tr1 of
                  (Inl t, tr2) \<Rightarrow> (Inl t, tr2)
                | (Inr rest, tr2) \<Rightarrow> (Inr (ts @ rest), tr2))))"

definition set_texts :: "subtitle_document \<Rightarrow> string list \<Rightarrow> subtitle_document" where
  \<comment> \<open>Modelled from the spec: the text of every entry is replaced in place, timing
      untouched.\<close>
  "set_texts doc ts = map2 (\<lambda>e t. e\<lparr>entry_text := t\<rparr>) doc ts"

definition translate_document ::
  "collaborators \<Rightarrow> pipeline_job \<Rightarrow> nat option \<Rightarrow> subtitle_document \<Rightarrow> event list \<Rightarrow>
     (terminal_command + subtitle_document) \<times> event list" where
  \<comment> \<open>Modelled from the spec: the Translating stage of the missing JobRunner, which
      hands the text payload only to the selected backend.\<close>
  "translate_document c j tok doc tr =
     (case translate_batches c j tok (chunks (batch_size c) (map entry_text doc)) tr of
        (Inl t, tr1) \<Rightarrow> (Inl t, tr1)
      | (Inr ts, tr1) \<Rightarrow> (Inr (set_texts doc ts), tr1))"

subsection \<open>The runner\<close>

definition stage_assembling ::
  "collaborators \<Rightarrow> nat option \<Rightarrow> string \<Rightarrow> subtitle_document \<Rightarrow> subtitle_document \<Rightarrow>
     event list \<Rightarrow> terminal_command \<times> event list" where
  \<comment> \<open>Modelled from the spec: the Assembling stage of the missing JobRunner and the
      boundary from Assembling to Done.\<close>
  "stage_assembling c tok video original translated =
     guarded tok Assembling (\<lambda>tr.
       case assemble c video original translated of
         Inl m \<Rightarrow> (Error m, tr @ [Failed AssemblyError])
       | Inr folder \<Rightarrow>
           (case check_token tok tr of
              (True, tr1) \<Rightarrow> (Cancelled, tr1)
            | (False, tr1) \<Rightarrow> (Done folder, tr1)))"

definition stage_translating ::
  "collaborators \<Rightarrow> pipeline_job \<Rightarrow> nat option \<Rightarrow> string \<Rightarrow> subtitle_document \<Rightarrow>
     event list \<Rightarrow> terminal_command \<times> event list" where
  \<comment> \<open>Modelled from the spec: the Translating stage of the missing JobRunner.\<close>
  "stage_translating c j tok video doc =
     guarded tok Translating (\<lambda>tr.
       case translate_document c j tok doc tr of
         (Inl t, tr1) \<Rightarrow> (t, tr1)
       | (Inr translated, tr1) \<Rightarrow> stage_assembling c tok video doc translated tr1)"

definition stage_transcribing ::
  "collaborators \<Rightarrow> pipeline_job \<Rightarrow> nat option \<Rightarrow> string \<Rightarrow> string \<Rightarrow>
     event list \<Rightarrow> terminal_command \<times> event list" where
  \<comment> \<open>Modelled from the spec: the Transcribing stage of the missing JobRunner;
      \<^verbatim>\<open>use_gpu\<close> is honoured only if the device probe reports availability.\<close>
  "stage_transcribing c j tok video audio =
     guarded tok Transcribing (\<lambda>tr.
       case transcribe c audio (use_gpu j \<and> device_available c) of
         Inl m \<Rightarrow> (Error m, tr @ [Failed TranscriptionError])
       | Inr doc \<Rightarrow> stage_translating c j tok video doc tr)"

definition stage_extracting ::
  "collaborators \<Rightarrow> pipeline_job \<Rightarrow> nat option \<Rightarrow> string \<Rightarrow>
     event list \<Rightarrow> terminal_command \<times> event list" where
  \<comment> \<open>Modelled from the spec: the ExtractingAudio stage of the missing JobRunner.\<close>
  "stage_extracting c j tok video =
     guarded tok ExtractingAudio (\<lambda>tr.
       case extract_audio c video of
         Inl m \<Rightarrow> (Error m, tr @ [Failed AudioExtractionError])
       | Inr audio \<Rightarrow> stage_transcribing c j tok video audio tr)"

definition stage_downloading ::
  "collaborators \<Rightarrow> pipeline_job \<Rightarrow> nat option \<Rightarrow>
     event list \<Rightarrow> terminal_command \<times> event list" where
  \<comment> \<open>Modelled from the spec: the Downloading stage of the missing JobRunner; a local
      path skips the fetch.\<close>
  "stage_downloading c j tok =
     guarded tok Downloading (\<lambda>tr.
       case source j of
         LocalPath p \<Rightarrow> stage_extracting c j tok p tr
       | Url u \<Rightarrow>
           (case download c u of
              Inl m \<Rightarrow> (Error m, tr @ [Failed DownloadError])
            | Inr video \<Rightarrow> stage_extracting c j tok video tr))"

definition run :: "collaborators \<Rightarrow> pipeline_job \<Rightarrow> nat option \<Rightarrow> terminal_command \<times> event list" where
  \<comment> \<open>Modelled from the spec: \<^verbatim>\<open>run(job, cancellationToken)\<close> of the missing JobRunner.
      Every exit path releases the temporary files and then publishes the terminal
      command on the CommandChannel.\<close>
  "run c j tok =
     (case stage_downloading c j tok [] of
        (command, tr) \<Rightarrow> (command, tr @ [Cleanup, Publish command]))"

definition is_publish :: "event \<Rightarrow> bool" where
  "is_publish e = (case e of Publish t \<Rightarrow> True | _ \<Rightarrow> False)"


section \<open>Example inputs\<close>

definition app0 :: app where
  "app0 =
     \<lparr>url_entry = ''https://host/video.mp4'', deepl_key_entry = ''dk'',
      openai_key_entry = ''ok'', whisper_model_combobox = ''base'',
      language_combobox = ''FR - French'', service_combobox = ''DeepL'', gpu_var = True,
      conf = \<lparr>deepl_key = [], openai_key = [], whisper_model = ''tiny'',
               cuda_available = False\<rparr>,
      proc = \<lparr>api_deepl_key = [], api_openai_key = [], api_model = []\<rparr>,
      progress_window = None, command_queue = [], scheduled = None\<rparr>"

definition app_local :: app where
  \<comment> \<open>The widgets as \<^verbatim>\<open>_select_local_file\<close> leaves them for \<^verbatim>\<open>/tmp/clip.mkv\<close>.\<close>
  "app_local = app0\<lparr>url_entry := ''Fichier local: clip.mkv''\<rparr>"

definition doc0 :: subtitle_document where
  "doc0 =
     [\<lparr>entry_index = 1, entry_start = 0, entry_end = 1500, entry_text = ''hello''\<rparr>,
      \<lparr>entry_index = 2, entry_start = 1500, entry_end = 3200, entry_text = ''good morning''\<rparr>,
      \<lparr>entry_index = 3, entry_start = 3200, entry_end = 5000, entry_text = ''bye''\<rparr>]"

definition doc0_fr :: subtitle_document where
  "doc0_fr =
     [\<lparr>entry_index = 1, entry_start = 0, entry_end = 1500, entry_text = ''FR:hello''\<rparr>,
      \<lparr>entry_index = 2, entry_start = 1500, entry_end = 3200,
        entry_text = ''FR:good morning''\<rparr>,
      \<lparr>entry_index = 3, entry_start = 3200, entry_end = 5000, entry_text = ''FR:bye''\<rparr>]"

definition collab0 :: collaborators where
  \<comment> \<open>Collaborators that all succeed; the machine-translation service is rate limited
      on the first attempt of every batch.\<close>
  "collab0 =
     \<lparr>download = (\<lambda>u. Inr ''/tmp/video.mp4''),
      extract_audio = (\<lambda>v. Inr ''/tmp/audio.wav''),
      transcribe = (\<lambda>a g. Inr doc0),
      neural_mt = (\<lambda>k ts l. if k = 0 then Transient ''rate limit''
                             else Texts (map (\<lambda>t. l @ '':'' @ t) ts)),
      chat_completion = (\<lambda>ts l. Texts (map (\<lambda>t. l @ '':'' @ t) ts)),
      assemble = (\<lambda>v original translated. Inr ''output/video_1/''),
      device_available = False,
      batch_size = 2,
      max_attempts = 3\<rparr>"

definition job0 :: pipeline_job where
  "job0 = \<lparr>source = Url ''https://host/video.mp4'', target_language = ''FR'',
           backend = NeuralMT, use_gpu = False\<rparr>"

definition app_xx :: app where
  \<comment> \<open>A target language that is not among the values of the combobox, as a configured
      default language can be.\<close>
  "app_xx = app0\<lparr>language_combobox := ''XX''\<rparr>"

definition cmd_done :: cmd where
  "cmd_done =
     [''command'' \<mapsto> ''processing_done'', ''video_folder'' \<mapsto> ''output/video_1/'']"

definition cmd_error :: cmd where
  "cmd_error = [''command'' \<mapsto> ''error'', ''message'' \<mapsto> ''download failed'']"

definition ui_ok :: ui where
  "ui_ok = \<lparr>close_raises = False, dialog_raises = False, messagebox_raises = False\<rparr>"

definition ui_bad :: ui where
  "ui_bad = \<lparr>close_raises = False, dialog_raises = False, messagebox_raises = True\<rparr>"

definition app_queue :: app where
  \<comment> \<open>Two commands waiting and no progress window: the first handler fails.\<close>
  "app_queue = app0\<lparr>command_queue := [cmd_done, cmd_error]\<rparr>"



section \<open>Evaluating the examples\<close>

lemma app0_url_job:
  "fst (app_process_video None app0) =
     [SaveApiKeys ''dk'' ''ok'', SaveConfig ''base'', LogInfo (ModelSelected ''base''),
      UpdateApiClient, CreateProgressWindow, LogInfo (FromUrl ''https://host/video.mp4''),
      ProcessVideo (Some ''https://host/video.mp4'') None ''FR'' ''DeepL'' False]"
  by (simp add: app_process_video_def app0_def Let_def truthy_def)

lemma app_local_job:
  "fst (app_process_video (Some ''/tmp/clip.mkv'') app_local) =
     [SaveApiKeys ''dk'' ''ok'', SaveConfig ''base'', LogInfo (ModelSelected ''base''),
      UpdateApiClient, CreateProgressWindow, LogInfo (LocalFile ''clip.mkv''),
      ProcessVideo None (Some ''/tmp/clip.mkv'') ''FR'' ''DeepL'' False]"
  by (simp add: app_process_video_def app_local_def app0_def Let_def truthy_def basename_def)

lemma select_local_file_app0:
  "select_local_file ''/tmp/clip.mkv'' app0 =
     (LogInfo (FileSelected ''/tmp/clip.mkv'') #
        fst (app_process_video (Some ''/tmp/clip.mkv'') app_local),
      snd (app_process_video (Some ''/tmp/clip.mkv'') app_local))"
  by (simp add: select_local_file_def app_local_def basename_def split: prod.splits)

lemma translate_doc0:
  "translate_document collab0 job0 None doc0 [] = (Inr doc0_fr, [CheckToken, CheckToken])"
  by (simp add: translate_document_def doc0_def doc0_fr_def collab0_def job0_def chunks.simps
        check_token_def translate_def set_texts_def numeral_3_eq_3)


lemma app_xx_job:
  "fst (app_process_video None app_xx) =
     [SaveApiKeys ''dk'' ''ok'', SaveConfig ''base'', LogInfo (ModelSelected ''base''),
      UpdateApiClient, CreateProgressWindow, LogInfo (FromUrl ''https://host/video.mp4''),
      ProcessVideo (Some ''https://host/video.mp4'') None ''XX'' ''DeepL'' False]"
  by (simp add: app_process_video_def app_xx_def app0_def Let_def truthy_def)

lemma poll_failed:
  "check_commands ui_bad app_queue =
     ([LogError (DoneFailed AttributeError), ShowInfoDone (Some ''output/video_1/''),
       LogError (ListenerFailed CollaboratorError)],
      app0\<lparr>command_queue := [cmd_error], scheduled := Some 1000\<rparr>)"
  by (simp add: check_commands_def app_queue_def app0_def handle_command_def dispatch_def
        cmd_done_def ui_bad_def handle_processing_done_def close_progress_def Let_def)

lemma polls_failed:
  "polls [ui_bad, ui_ok] app_queue =
     ([LogError (DoneFailed AttributeError), ShowInfoDone (Some ''output/video_1/''),
       LogError (ListenerFailed CollaboratorError), LogError (ErrorFailed AttributeError)],
      app0\<lparr>command_queue := [], scheduled := Some 100\<rparr>)"
  by (simp add: check_commands_def app_queue_def app0_def handle_command_def dispatch_def
        cmd_done_def cmd_error_def ui_bad_def ui_ok_def handle_processing_done_def
        handle_processing_error_def close_progress_def Let_def)





section \<open>Properties of the pipeline\<close>

subsection \<open>Batches and texts\<close>

lemma concat_chunks: "concat (chunks n xs) = xs"
proof (induction n xs rule: chunks.induct)
  case (1 n xs)
  show ?case
  proof (cases "xs = []")
    case True
    then show ?thesis by (simp add: chunks.simps)
  next
    case False
    with 1 show ?thesis by (subst chunks.simps) simp
  qed
qed

lemma translate_length:
  "translate c b entries language = Inr ts \<Longrightarrow> length ts = length entries"
  by (auto simp: translate_def Let_def split: sum.splits if_splits)

lemma translate_batches_length:
  "translate_batches c j tok bs tr = (Inr ts, tr') \<Longrightarrow> length ts = length (concat bs)"
proof (induction bs arbitrary: tr ts tr')
  case Nil
  then show ?case by simp
next
  case (Cons b bs)
  then show ?case
    by (auto simp: check_token_def
          split: sum.splits if_splits prod.splits bool.splits dest: translate_length)
qed

lemma set_texts_length: "length ts = length doc \<Longrightarrow> length (set_texts doc ts) = length doc"
  by (simp add: set_texts_def)

lemma set_texts_nth:
  "length ts = length doc \<Longrightarrow> i < length doc \<Longrightarrow>
     set_texts doc ts ! i = (doc ! i)\<lparr>entry_text := ts ! i\<rparr>"
  by (simp add: set_texts_def)

text \<open>
  Claim C2. For every subtitle document handed to the Translating stage, with either
  backend, a translated document has as many entries as the original, in the same
  order, and entry \<open>i\<close> keeps the index, start and end of the original entry \<open>i\<close>: the
  result is the original with its texts replaced by as many translated texts.
\<close>

theorem translation_keeps_structure:
  assumes "translate_document c j tok doc tr = (Inr doc', tr')"
  shows "length doc' = length doc \<and>
     (\<forall>i<length doc.
        entry_index (doc' ! i) = entry_index (doc ! i) \<and>
        entry_start (doc' ! i) = entry_start (doc ! i) \<and>
        entry_end (doc' ! i) = entry_end (doc ! i)) \<and>
     (\<exists>ts. length ts = length doc \<and> doc' = set_texts doc ts)"
proof -
  from assms obtain ts where
    b: "translate_batches c j tok (chunks (batch_size c) (map entry_text doc)) tr = (Inr ts, tr')"
    and d: "doc' = set_texts doc ts"
    by (auto simp: translate_document_def split: prod.splits sum.splits)
  from translate_batches_length [OF b] have len: "length ts = length doc"
    by (simp add: concat_chunks)
  show ?thesis
    using len d by (auto simp: set_texts_length set_texts_nth)
qed

theorem translation_keeps_structure_witness:
  "translate_document collab0 job0 None doc0 [] = (Inr doc0_fr, [CheckToken, CheckToken]) \<and>
   length doc0_fr = length doc0 \<and>
   map entry_index doc0_fr = map entry_index doc0 \<and>
   map entry_start doc0_fr = map entry_start doc0 \<and>
   map entry_end doc0_fr = map entry_end doc0 \<and>
   map entry_text doc0_fr \<noteq> map entry_text doc0"
  using translation_keeps_structure [OF translate_doc0] translate_doc0
  by (simp add: doc0_def doc0_fr_def)

subsection \<open>Publishing\<close>

lemma is_publish_simps [simp]:
  "is_publish (Publish t)" "\<not> is_publish CheckToken" "\<not> is_publish Cleanup"
  "\<not> is_publish (Enter s)" "\<not> is_publish (Failed k)"
  by (simp_all add: is_publish_def)

lemma guarded_quiet:
  assumes "\<And>tr. filter is_publish (snd (body tr)) = filter is_publish tr"
  shows "filter is_publish (snd (guarded tok s body tr)) = filter is_publish tr"
  using assms by (simp add: guarded_def check_token_def split: prod.splits bool.splits)

lemma translate_batches_quiet:
  "translate_batches c j tok bs tr = (r, tr') \<Longrightarrow> filter is_publish tr' = filter is_publish tr"
proof (induction bs arbitrary: tr r tr')
  case Nil
  then show ?case by simp
next
  case (Cons b bs)
  show ?case
  proof (cases "fst (check_token tok tr)")
    case True
    with Cons.prems show ?thesis
      by (auto simp: check_token_def)
  next
    case False
    show ?thesis
    proof (cases "translate c (backend j) b (target_language j)")
      case (Inl m)
      with False Cons.prems show ?thesis
        by (auto simp: check_token_def)
    next
      case (Inr ts)
      obtain r2 tr2 where rest: "translate_batches c j tok bs (tr @ [CheckToken]) = (r2, tr2)"
        by (cases "translate_batches c j tok bs (tr @ [CheckToken])")
      from Cons.IH [OF rest] have "filter is_publish tr2 = filter is_publish tr"
        by simp
      moreover from False Inr rest Cons.prems have "tr' = tr2"
        by (auto simp: check_token_def split: sum.splits)
      ultimately show ?thesis by simp
    qed
  qed
qed

lemma translate_document_quiet:
  "filter is_publish (snd (translate_document c j tok doc tr)) = filter is_publish tr"
proof -
  obtain r tr' where b:
    "translate_batches c j tok (chunks (batch_size c) (map entry_text doc)) tr = (r, tr')"
    by (cases "translate_batches c j tok (chunks (batch_size c) (map entry_text doc)) tr")
  from translate_batches_quiet [OF b] show ?thesis
    by (cases r) (simp_all add: translate_document_def b)
qed

lemma stage_assembling_quiet:
  "filter is_publish (snd (stage_assembling c tok video original translated tr)) =
     filter is_publish tr"
  unfolding stage_assembling_def
  by (rule guarded_quiet) (simp add: check_token_def split: sum.splits bool.splits)

lemma stage_translating_quiet:
  "filter is_publish (snd (stage_translating c j tok video doc tr)) = filter is_publish tr"
  unfolding stage_translating_def
proof (rule guarded_quiet)
  fix tr
  show "filter is_publish (snd (case translate_document c j tok doc tr of
         (Inl t, tr1) \<Rightarrow> (t, tr1)
       | (Inr translated, tr1) \<Rightarrow> stage_assembling c tok video doc translated tr1)) =
     filter is_publish tr"
    using translate_document_quiet [of c j tok doc tr]
    by (auto simp: stage_assembling_quiet split: prod.splits sum.splits)
qed

lemma stage_transcribing_quiet:
  "filter is_publish (snd (stage_transcribing c j tok video audio tr)) = filter is_publish tr"
  unfolding stage_transcribing_def
  by (rule guarded_quiet) (simp add: stage_translating_quiet split: sum.splits)

lemma stage_extracting_quiet:
  "filter is_publish (snd (stage_extracting c j tok video tr)) = filter is_publish tr"
  unfolding stage_extracting_def
  by (rule guarded_quiet) (simp add: stage_transcribing_quiet split: sum.splits)

lemma stage_downloading_quiet:
  "filter is_publish (snd (stage_downloading c j tok tr)) = filter is_publish tr"
  unfolding stage_downloading_def
  by (rule guarded_quiet)
     (simp add: stage_extracting_quiet split: sum.splits source.splits)

text \<open>
  Claim C1. Whatever the job, the collaborators and the token do, the trace of a run
  holds exactly one published terminal command, the command the run returns, and
  publishing it is the last event of the trace.
\<close>

theorem exactly_one_terminal_command:
  "length (filter is_publish (snd (run c j tok))) = 1 \<and>
   last (snd (run c j tok)) = Publish (fst (run c j tok)) \<and>
   (\<exists>pre. snd (run c j tok) = pre @ [Publish (fst (run c j tok))] \<and>
          \<not> list_ex is_publish pre)"
proof -
  obtain command tr where s: "stage_downloading c j tok [] = (command, tr)"
    by (cases "stage_downloading c j tok []")
  from stage_downloading_quiet [of c j tok "[]"] s have q: "filter is_publish tr = []"
    by simp
  have r: "run c j tok = (command, tr @ [Cleanup, Publish command])"
    by (simp add: run_def s)
  have "\<not> list_ex is_publish (tr @ [Cleanup])"
    using q by (simp add: list_ex_iff filter_empty_conv)
  moreover have "snd (run c j tok) = (tr @ [Cleanup]) @ [Publish (fst (run c j tok))]"
    by (simp add: r)
  ultimately have
    "\<exists>pre. snd (run c j tok) = pre @ [Publish (fst (run c j tok))] \<and> \<not> list_ex is_publish pre"
    by blast
  then show ?thesis
    using q by (simp add: r)
qed

subsection \<open>Cancellation\<close>

























section \<open>Properties of the application\<close>

lemma is_process_video_simps [simp]:
  "is_process_video (ProcessVideo u p l s g)"
  "\<not> is_process_video (SaveApiKeys x y)" "\<not> is_process_video (SaveConfig m)"
  "\<not> is_process_video (LogInfo i)" "\<not> is_process_video (LogError i)"
  "\<not> is_process_video UpdateApiClient" "\<not> is_process_video (ShowWarning w)"
  "\<not> is_process_video CreateProgressWindow"
  by (simp_all add: is_process_video_def)

lemma is_warning_simps [simp]:
  "is_warning (ShowWarning w)"
  "\<not> is_warning (SaveApiKeys x y)" "\<not> is_warning (SaveConfig m)"
  "\<not> is_warning (LogInfo i)" "\<not> is_warning (LogError i)"
  "\<not> is_warning UpdateApiClient" "\<not> is_warning (ProcessVideo u p l s g)"
  "\<not> is_warning CreateProgressWindow"
  by (simp_all add: is_warning_def)

lemma shows_simps [simp]:
  "shows_done (ResultDialogShow f)" "shows_done (ShowInfoDone f)"
  "\<not> shows_done ProgressClose" "\<not> shows_done (LogError i)"
  "\<not> shows_done ShowInfoCancelled" "\<not> shows_done (ShowErrorBox m)"
  "shows_error (ShowErrorBox m)"
  "\<not> shows_error ProgressClose" "\<not> shows_error (LogError i)"
  "\<not> shows_error ShowInfoCancelled" "\<not> shows_error (ResultDialogShow f)"
  "\<not> shows_error (ShowInfoDone f)"
  "shows_cancelled ShowInfoCancelled"
  "\<not> shows_cancelled ProgressClose" "\<not> shows_cancelled (LogError i)"
  "\<not> shows_cancelled (ShowErrorBox m)" "\<not> shows_cancelled (ResultDialogShow f)"
  "\<not> shows_cancelled (ShowInfoDone f)"
  by (simp_all add: shows_done_def shows_error_def shows_cancelled_def)

subsection \<open>Starting a job\<close>

text \<open>
  Claim C5. With an empty URL field and no local path, \<^verbatim>\<open>_process_video\<close> ends with the
  input warning: it never calls \<^verbatim>\<open>process_video\<close> (so no job, no worker and no stage is
  started), creates no progress window and leaves the command queue as it was.
\<close>

theorem no_source_no_job:
  "url_entry a = [] \<Longrightarrow> \<not> truthy video_path \<Longrightarrow>
     last (fst (app_process_video video_path a)) = ShowWarning NoSourceWarning \<and>
     \<not> list_ex is_process_video (fst (app_process_video video_path a)) \<and>
     CreateProgressWindow \<notin> set (fst (app_process_video video_path a)) \<and>
     command_queue (snd (app_process_video video_path a)) = command_queue a \<and>
     progress_window (snd (app_process_video video_path a)) = progress_window a"
  by (simp add: app_process_video_def Let_def is_process_video_def)

theorem no_source_no_job_witness:
  "url_entry (app0\<lparr>url_entry := []\<rparr>) = [] \<and> \<not> truthy None \<and>
   fst (app_process_video None (app0\<lparr>url_entry := []\<rparr>)) =
     [SaveApiKeys ''dk'' ''ok'', SaveConfig ''base'', LogInfo (ModelSelected ''base''),
      UpdateApiClient, ShowWarning NoSourceWarning] \<and>
   \<not> list_ex is_process_video (fst (app_process_video None (app0\<lparr>url_entry := []\<rparr>)))"
  using no_source_no_job [of "app0\<lparr>url_entry := []\<rparr>" None]
  by (simp add: app_process_video_def app0_def Let_def truthy_def)

text \<open>
  Claim C6. The GPU flag of every \<^verbatim>\<open>process_video\<close> call is the conjunction of the
  checkbox and the CUDA probe: with CUDA available it is the requested value, without
  CUDA it is false whatever was requested.
\<close>

theorem use_gpu_effective:
  "ProcessVideo u p l s g \<in> set (fst (app_process_video vp a)) \<Longrightarrow>
     g = (gpu_var a \<and> cuda_available (conf a)) \<and>
     (if cuda_available (conf a) then g = gpu_var a else \<not> g)"
  by (auto simp: app_process_video_def Let_def split: if_splits)

theorem use_gpu_effective_witness:
  "ProcessVideo (Some ''https://host/video.mp4'') None ''FR'' ''DeepL'' False
     \<in> set (fst (app_process_video None app0)) \<and>
   gpu_var app0 \<and> \<not> cuda_available (conf app0)"
proof -
  have mem: "ProcessVideo (Some ''https://host/video.mp4'') None ''FR'' ''DeepL'' False
     \<in> set (fst (app_process_video None app0))"
    by (simp add: app0_url_job)
  from use_gpu_effective [OF mem] mem show ?thesis
    by (simp add: app0_def)
qed

text \<open>
  Claim C9. Every \<^verbatim>\<open>process_video\<close> call made by \<^verbatim>\<open>_process_video\<close> has exactly one source
  argument that is not \<^verbatim>\<open>None\<close>: with a local path the call is
  \<^verbatim>\<open>process_video(None, path, ...)\<close>, also when the URL field is not empty; otherwise it is
  \<^verbatim>\<open>process_video(url, None, ...)\<close> with the non-empty text of the URL field.
\<close>

theorem one_source_argument:
  "ProcessVideo u p l s g \<in> set (fst (app_process_video vp a)) \<Longrightarrow>
     (u = None) \<noteq> (p = None) \<and>
     (if truthy vp then u = None \<and> p = vp
      else u = Some (url_entry a) \<and> url_entry a \<noteq> [] \<and> p = None)"
  by (auto simp: app_process_video_def Let_def truthy_def split: if_splits option.splits)

theorem one_source_argument_witness:
  "ProcessVideo None (Some ''/tmp/clip.mkv'') ''FR'' ''DeepL'' False
     \<in> set (fst (app_process_video (Some ''/tmp/clip.mkv'') app_local)) \<and>
   url_entry app_local = ''Fichier local: clip.mkv'' \<and> truthy (Some ''/tmp/clip.mkv'')"
proof -
  have mem: "ProcessVideo None (Some ''/tmp/clip.mkv'') ''FR'' ''DeepL'' False
     \<in> set (fst (app_process_video (Some ''/tmp/clip.mkv'') app_local))"
    by (simp add: app_local_job)
  from one_source_argument [OF mem] mem show ?thesis
    by (simp add: app_local_def app0_def truthy_def)
qed

text \<open>
  Claim C4, as stated, fails: a URL field that is not empty together with a local path
  is not refused. \<^verbatim>\<open>_select_local_file\<close> itself writes the file's name into the URL
  field before it calls \<^verbatim>\<open>_process_video\<close> with the path, and the job is started on the
  local path. Nor is the target language compared with the supported codes: any
  non-empty code is passed on.
\<close>

theorem both_sources_start_a_job:
  "url_entry app_local \<noteq> [] \<and> truthy (Some ''/tmp/clip.mkv'') \<and>
   \<not> list_ex is_warning (fst (app_process_video (Some ''/tmp/clip.mkv'') app_local)) \<and>
   last (fst (app_process_video (Some ''/tmp/clip.mkv'') app_local)) =
     ProcessVideo None (Some ''/tmp/clip.mkv'') ''FR'' ''DeepL'' False \<and>
   last (fst (select_local_file ''/tmp/clip.mkv'' app0)) =
     ProcessVideo None (Some ''/tmp/clip.mkv'') ''FR'' ''DeepL'' False \<and>
   ''XX'' \<notin> set supported_languages \<and>
   last (fst (app_process_video None app_xx)) =
     ProcessVideo (Some ''https://host/video.mp4'') None ''XX'' ''DeepL'' False"
  by (simp add: app_local_job select_local_file_app0 app_xx_job supported_languages_def)
     (simp add: app_local_def app0_def truthy_def)

text \<open>
  Claim C4, amended. \<^verbatim>\<open>_process_video\<close> requires a source (a URL field that is not empty,
  or a local path) and a target-language code that is not empty. If either is missing
  it ends with an input warning: no \<^verbatim>\<open>process_video\<close> call, no progress window, the
  command queue untouched. Otherwise, also when both a URL and a local path are present,
  it shows no warning, opens the progress window and ends with its one
  \<^verbatim>\<open>process_video\<close> call.
\<close>

theorem input_validation:
  "(if (url_entry a = [] \<and> \<not> truthy vp) \<or> split_first '' - '' (language_combobox a) = []
    then is_warning (last (fst (app_process_video vp a))) \<and>
         \<not> list_ex is_process_video (fst (app_process_video vp a)) \<and>
         CreateProgressWindow \<notin> set (fst (app_process_video vp a)) \<and>
         progress_window (snd (app_process_video vp a)) = progress_window a \<and>
         command_queue (snd (app_process_video vp a)) = command_queue a
    else \<not> list_ex is_warning (fst (app_process_video vp a)) \<and>
         is_process_video (last (fst (app_process_video vp a))) \<and>
         last (fst (app_process_video vp a)) =
           ProcessVideo (if truthy vp then None else Some (url_entry a))
             (if truthy vp then vp else None)
             (split_first '' - '' (language_combobox a)) (service_combobox a)
             (gpu_var a \<and> cuda_available (conf a)) \<and>
         length (filter is_process_video (fst (app_process_video vp a))) = 1 \<and>
         progress_window (snd (app_process_video vp a)) = Some True \<and>
         command_queue (snd (app_process_video vp a)) = command_queue a)"
  by (simp add: app_process_video_def Let_def)

theorem input_validation_witness:
  "split_first '' - '' (language_combobox (app0\<lparr>language_combobox := []\<rparr>)) = [] \<and>
   is_warning (last (fst (app_process_video None (app0\<lparr>language_combobox := []\<rparr>)))) \<and>
   \<not> list_ex is_process_video
       (fst (app_process_video None (app0\<lparr>language_combobox := []\<rparr>))) \<and>
   progress_window (snd (app_process_video None (app0\<lparr>language_combobox := []\<rparr>))) = None"
  using input_validation [of "app0\<lparr>language_combobox := []\<rparr>" None]
  by (simp add: app0_def)

text \<open>
  Claim C8. Whenever \<^verbatim>\<open>_process_video\<close> submits a job, its calls come in this order:
  the entered API keys are written to the configuration and persisted, then
  \<^verbatim>\<open>update_api_client\<close> is called, and \<^verbatim>\<open>process_video\<close> is called last. When the job
  starts, the configuration holds the entered keys and the processor's snapshot is the
  one taken from that configuration.
\<close>

theorem keys_before_job:
  assumes "ProcessVideo u p l s g \<in> set (fst (app_process_video vp a))"
  shows "(\<exists>mid post.
            fst (app_process_video vp a) =
              SaveApiKeys (deepl_key_entry a) (openai_key_entry a) # mid @
              UpdateApiClient # post @ [ProcessVideo u p l s g] \<and>
            \<not> list_ex is_process_video (mid @ post) \<and> UpdateApiClient \<notin> set (mid @ post)) \<and>
         deepl_key (conf (snd (app_process_video vp a))) = deepl_key_entry a \<and>
         openai_key (conf (snd (app_process_video vp a))) = openai_key_entry a \<and>
         api_deepl_key (proc (snd (app_process_video vp a))) = deepl_key_entry a \<and>
         api_openai_key (proc (snd (app_process_video vp a))) = openai_key_entry a \<and>
         api_model (proc (snd (app_process_video vp a))) =
           whisper_model (conf (snd (app_process_video vp a)))"
proof -
  let ?es = "fst (app_process_video vp a)"
  let ?mid = "if whisper_model_combobox a \<noteq> []
              then [SaveConfig (whisper_model_combobox a),
                    LogInfo (ModelSelected (whisper_model_combobox a))]
              else []"
  let ?post = "[CreateProgressWindow,
                if truthy vp then LogInfo (LocalFile (basename (the vp)))
                else LogInfo (FromUrl (url_entry a))]"
  from assms have e: "?es = SaveApiKeys (deepl_key_entry a) (openai_key_entry a) # ?mid @
              UpdateApiClient # ?post @ [ProcessVideo u p l s g]"
    by (auto simp: app_process_video_def Let_def split: if_splits)
  have q: "\<not> list_ex is_process_video (?mid @ ?post) \<and> UpdateApiClient \<notin> set (?mid @ ?post)"
    by simp
  from e q have "\<exists>mid post.
            ?es = SaveApiKeys (deepl_key_entry a) (openai_key_entry a) # mid @
              UpdateApiClient # post @ [ProcessVideo u p l s g] \<and>
            \<not> list_ex is_process_video (mid @ post) \<and> UpdateApiClient \<notin> set (mid @ post)"
    by blast
  moreover have "deepl_key (conf (snd (app_process_video vp a))) = deepl_key_entry a \<and>
         openai_key (conf (snd (app_process_video vp a))) = openai_key_entry a \<and>
         api_deepl_key (proc (snd (app_process_video vp a))) = deepl_key_entry a \<and>
         api_openai_key (proc (snd (app_process_video vp a))) = openai_key_entry a \<and>
         api_model (proc (snd (app_process_video vp a))) =
           whisper_model (conf (snd (app_process_video vp a)))"
    by (simp add: app_process_video_def Let_def update_api_client_def)
  ultimately show ?thesis by blast
qed

theorem keys_before_job_witness:
  "ProcessVideo (Some ''https://host/video.mp4'') None ''FR'' ''DeepL'' False
     \<in> set (fst (app_process_video None app0)) \<and>
   deepl_key (conf app0) = [] \<and> deepl_key_entry app0 = ''dk'' \<and>
   api_deepl_key (proc (snd (app_process_video None app0))) = ''dk'' \<and>
   api_openai_key (proc (snd (app_process_video None app0))) = ''ok'' \<and>
   api_model (proc (snd (app_process_video None app0))) = ''base''"
proof -
  have mem: "ProcessVideo (Some ''https://host/video.mp4'') None ''FR'' ''DeepL'' False
     \<in> set (fst (app_process_video None app0))"
    by (simp add: app0_url_job)
  from keys_before_job [OF mem] mem show ?thesis
    by (simp add: app0_def app_process_video_def Let_def truthy_def)
qed

subsection \<open>The command listener\<close>

lemma handle_command_queue:
  "command_queue (snd (snd (handle_command u cmd a))) = command_queue a"
  by (auto simp: handle_command_def handle_processing_done_def handle_processing_cancelled_def
        handle_processing_error_def close_progress_def Let_def
        split: option.splits handler.splits)

lemma check_commands_scheduled:
  "scheduled (snd (check_commands u a)) = Some 100 \<or>
   scheduled (snd (check_commands u a)) = Some 1000"
  by (auto simp: check_commands_def split: list.splits prod.splits option.splits)

lemma check_commands_empty:
  "command_queue a = [] \<Longrightarrow> check_commands u a = ([], a\<lparr>scheduled := Some 100\<rparr>)"
  by (simp add: check_commands_def)

lemma check_commands_queue:
  "command_queue (snd (check_commands u a)) = tl (command_queue a)"
proof (cases "command_queue a")
  case Nil
  then show ?thesis by (simp add: check_commands_def)
next
  case (Cons cmd rest)
  obtain r es a1 where h: "handle_command u cmd (a\<lparr>command_queue := rest\<rparr>) = (r, es, a1)"
    by (cases "handle_command u cmd (a\<lparr>command_queue := rest\<rparr>)") auto
  from handle_command_queue [of u cmd "a\<lparr>command_queue := rest\<rparr>"] h
  have "command_queue a1 = rest" by simp
  with Cons h show ?thesis
    by (cases r) (simp_all add: check_commands_def)
qed

lemma check_commands_raise:
  "command_queue a = cmd # rest \<Longrightarrow>
   fst (handle_command u cmd (a\<lparr>command_queue := rest\<rparr>)) = Some e \<Longrightarrow>
     scheduled (snd (check_commands u a)) = Some 1000 \<and>
     last (fst (check_commands u a)) = LogError (ListenerFailed e)"
  by (cases "handle_command u cmd (a\<lparr>command_queue := rest\<rparr>)")
     (simp add: check_commands_def)

lemma polls_queue:
  "command_queue (snd (polls us a)) = drop (length us) (command_queue a)"
proof (induction us arbitrary: a)
  case Nil
  then show ?case by simp
next
  case (Cons u us)
  from Cons.IH [of "snd (check_commands u a)"] show ?case
    by (simp add: case_prod_beta check_commands_queue drop_Suc)
qed

lemma polls_scheduled:
  "us \<noteq> [] \<Longrightarrow>
     scheduled (snd (polls us a)) = Some 100 \<or> scheduled (snd (polls us a)) = Some 1000"
proof (induction us arbitrary: a)
  case Nil
  then show ?case by simp
next
  case (Cons u us)
  show ?case
  proof (cases "us = []")
    case True
    with check_commands_scheduled [of u a] show ?thesis by (simp add: case_prod_beta)
  next
    case False
    from Cons.IH [OF False, of "snd (check_commands u a)"] show ?thesis
      by (simp add: case_prod_beta)
  qed
qed

text \<open>
  Claim C10. A run of the listener's callback takes a command without waiting and always
  schedules the next run, after 100 ms, or after 1000 ms when handling the command
  raised. On an empty queue it changes nothing but that schedule. A command whose
  handling raises is logged and consumed like any other, so after as many runs as there
  were commands the queue is empty, and the next run is still scheduled.
\<close>

theorem listener_never_stops:
  "(scheduled (snd (check_commands u a)) = Some 100 \<or>
    scheduled (snd (check_commands u a)) = Some 1000) \<and>
   (command_queue a = [] \<longrightarrow> check_commands u a = ([], a\<lparr>scheduled := Some 100\<rparr>)) \<and>
   (\<forall>cmd rest e. command_queue a = cmd # rest \<longrightarrow>
      fst (handle_command u cmd (a\<lparr>command_queue := rest\<rparr>)) = Some e \<longrightarrow>
        scheduled (snd (check_commands u a)) = Some 1000 \<and>
        last (fst (check_commands u a)) = LogError (ListenerFailed e) \<and>
        command_queue (snd (check_commands u a)) = rest) \<and>
   command_queue (snd (polls us a)) = drop (length us) (command_queue a) \<and>
   (us \<noteq> [] \<longrightarrow> scheduled (snd (polls us a)) = Some 100 \<or>
                 scheduled (snd (polls us a)) = Some 1000)"
  using check_commands_scheduled [of u a] check_commands_empty [of a u]
    check_commands_raise [of a _ _ u] check_commands_queue [of u a]
    polls_queue [of us a] polls_scheduled [of us a]
  by auto

theorem listener_never_stops_witness:
  "command_queue app_queue = [cmd_done, cmd_error] \<and>
   fst (handle_command ui_bad cmd_done (app_queue\<lparr>command_queue := [cmd_error]\<rparr>)) =
     Some CollaboratorError \<and>
   scheduled (snd (check_commands ui_bad app_queue)) = Some 1000 \<and>
   command_queue (snd (check_commands ui_bad app_queue)) = [cmd_error] \<and>
   command_queue (snd (polls [ui_bad, ui_ok] app_queue)) = [] \<and>
   scheduled (snd (polls [ui_bad, ui_ok] app_queue)) = Some 100 \<and>
   check_commands ui_ok app0 = ([], app0\<lparr>scheduled := Some 100\<rparr>)"
proof -
  have q: "command_queue app_queue = [cmd_done, cmd_error]"
    by (simp add: app_queue_def)
  have h: "fst (handle_command ui_bad cmd_done (app_queue\<lparr>command_queue := [cmd_error]\<rparr>)) =
             Some CollaboratorError"
    by (simp add: app_queue_def app0_def handle_command_def dispatch_def cmd_done_def
          ui_bad_def handle_processing_done_def close_progress_def Let_def)
  have e: "command_queue app0 = []"
    by (simp add: app0_def)
  have p: "scheduled (snd (polls [ui_bad, ui_ok] app_queue)) = Some 100"
    by (simp only: polls_failed) simp
  note t = listener_never_stops [of ui_bad app_queue "[ui_bad, ui_ok]"]
  from t have t3: "\<forall>cmd rest e. command_queue app_queue = cmd # rest \<longrightarrow>
      fst (handle_command ui_bad cmd (app_queue\<lparr>command_queue := rest\<rparr>)) = Some e \<longrightarrow>
        scheduled (snd (check_commands ui_bad app_queue)) = Some 1000 \<and>
        last (fst (check_commands ui_bad app_queue)) = LogError (ListenerFailed e) \<and>
        command_queue (snd (check_commands ui_bad app_queue)) = rest"
    by (rule conjunct2 [THEN conjunct2, THEN conjunct1])
  from t3 q h have a: "scheduled (snd (check_commands ui_bad app_queue)) = Some 1000 \<and>
        command_queue (snd (check_commands ui_bad app_queue)) = [cmd_error]"
    by (elim allE [where x = cmd_done] allE [where x = "[cmd_error]"]
          allE [where x = CollaboratorError]) (elim impE conjE, assumption+, simp)
  from t have d: "command_queue (snd (polls [ui_bad, ui_ok] app_queue)) =
                 drop (length [ui_bad, ui_ok]) (command_queue app_queue)"
    by (rule conjunct2 [THEN conjunct2, THEN conjunct2, THEN conjunct1])
  have b: "command_queue (snd (polls [ui_bad, ui_ok] app_queue)) = []"
    by (subst d) (simp add: q)
  from listener_never_stops [of ui_ok app0 "[]"]
  have "command_queue app0 = [] \<longrightarrow> check_commands ui_ok app0 = ([], app0\<lparr>scheduled := Some 100\<rparr>)"
    by (rule conjunct2 [THEN conjunct1])
  with e have c: "check_commands ui_ok app0 = ([], app0\<lparr>scheduled := Some 100\<rparr>)"
    by (rule mp [rotated])
  from q h a b p c show ?thesis
    by (intro conjI) (erule conjunct1 conjunct2 | assumption)+
qed

subsection \<open>Terminal outcomes\<close>













end
